theory Spec2Isabelle
  imports Main "HOL-Library.AList"
begin

section \<open>The message protocol shared by hub and client\<close>

text \<open>
  Both classes exchange strings through \<^verbatim>\<open>postMessage\<close>. Four of them are fixed signals;
  every other string is handed to \<^verbatim>\<open>JSON.parse\<close>.
\<close>

definition EVENT_UNAVAILABLE :: string where
  "EVENT_UNAVAILABLE = ''cross-storage:unavailable''"

definition EVENT_READY :: string where
  "EVENT_READY = ''cross-storage:ready''"

definition EVENT_POLL :: string where
  "EVENT_POLL = ''cross-storage:poll''"

definition EVENT_CHANGE :: string where
  "EVENT_CHANGE = ''cross-storage:change''"

text \<open>The enum \<^verbatim>\<open>CrossStorageAction\<close> of types.ts and the string each member stands for.\<close>

datatype CrossStorageAction = SET | GET | DEL | GET_KEYS | CLEAR

fun action_name :: "CrossStorageAction \<Rightarrow> string" where
  "action_name SET = ''set''"
| "action_name GET = ''get''"
| "action_name DEL = ''del''"
| "action_name GET_KEYS = ''getKeys''"
| "action_name CLEAR = ''clear''"

text \<open>
  JavaScript values that travel in a request's \<^verbatim>\<open>value\<close> and in a response's
  \<^verbatim>\<open>result\<close>: \<^verbatim>\<open>undefined\<close>, \<^verbatim>\<open>null\<close>, a string, a plain object and an array.
  Numbers and booleans are left out: no operation of the hub produces them.
\<close>

datatype js_value =
    Undefined
  | Null
  | Str string
  | Record "(string \<times> js_value) list"
  | Array "js_value list"

text \<open>\<^verbatim>\<open>Array.prototype.join\<close> on strings.\<close>

fun join :: "string \<Rightarrow> string list \<Rightarrow> string" where
  "join sep [] = []"
| "join sep [x] = x"
| "join sep (x # y # ys) = x @ sep @ join sep (y # ys)"

text \<open>
  The conversion \<^verbatim>\<open>ToString\<close> that \<^verbatim>\<open>Storage.setItem\<close> applies to its arguments. An array
  joins its elements with a comma, \<^verbatim>\<open>null\<close> and \<^verbatim>\<open>undefined\<close> elements giving the empty
  string; a plain object gives \<^verbatim>\<open>[object Object]\<close>.
\<close>

fun ToString :: "js_value \<Rightarrow> string" where
  "ToString Undefined = ''undefined''"
| "ToString Null = ''null''"
| "ToString (Str s) = s"
| "ToString (Record fs) = ''[object Object]''"
| "ToString (Array xs) =
     join '','' (map (\<lambda>x. case x of Undefined \<Rightarrow> [] | Null \<Rightarrow> [] | _ \<Rightarrow> ToString x) xs)"

text \<open>
  The \<^verbatim>\<open>key\<close> of a request: absent (\<^verbatim>\<open>getKeys\<close>, \<^verbatim>\<open>clear\<close>), one string, or an array of
  strings, as \<^verbatim>\<open>CrossStorageRequest\<close> types it.
\<close>

datatype key_arg = KeyAbsent | Key string | Keys "string list"

text \<open>
  A parsed request. \<^verbatim>\<open>id\<close> and \<^verbatim>\<open>method\<close> are strings as types.ts declares them; \<open>None\<close>
  is a property the object does not have (\<^verbatim>\<open>undefined\<close>).
\<close>

record CrossStorageRequest =
  req_id :: "string option"
  req_method :: "string option"
  req_key :: key_arg
  req_value :: js_value

record CrossStorageResponse =
  res_id :: "string option"
  res_method :: "string option"
  res_error :: "string option"
  res_result :: js_value

text \<open>
  The text of a message. \<open>Text s\<close> is a string \<open>s\<close> that \<^verbatim>\<open>JSON.parse\<close> rejects or turns
  into something other than an object (the four signals are of this kind);
  \<open>JsonRequest r\<close> and \<open>JsonResponse r\<close> are the texts \<^verbatim>\<open>JSON.stringify\<close> makes of an
  object and \<^verbatim>\<open>JSON.parse\<close> turns back into it. Such a text begins with a brace, so no
  prefix test for \<^verbatim>\<open>cross-storage:\<close> succeeds on it.
\<close>

datatype wire = Text string | JsonRequest CrossStorageRequest | JsonResponse CrossStorageResponse

text \<open>JavaScript truthiness of an optional string: \<^verbatim>\<open>!x\<close> holds of \<^verbatim>\<open>undefined\<close>,
  \<^verbatim>\<open>null\<close> and the empty string.\<close>

fun falsy :: "string option \<Rightarrow> bool" where
  "falsy None = True"
| "falsy (Some s) = (s = [])"

text \<open>
  Windows a message can be posted to: the parent of the hub's frame, and any other
  window (the \<^verbatim>\<open>source\<close> of a message event is one of them).
\<close>

datatype window_ref = WindowParent | WindowOther nat

text \<open>One call \<^verbatim>\<open>w.postMessage(data, targetOrigin)\<close>.\<close>

record post =
  post_window :: window_ref
  post_data :: wire
  post_targetOrigin :: string

record MessageEvent =
  msg_origin :: string
  msg_data :: wire
  msg_source :: window_ref

section \<open>The storage engine\<close>

text \<open>
  \<^verbatim>\<open>window.localStorage\<close>: the items in the order \<^verbatim>\<open>key(i)\<close> enumerates them, and the
  capacity of the area in characters (\<open>None\<close>: no limit). \<^verbatim>\<open>setItem\<close> raises
  \<^verbatim>\<open>QuotaExceededError\<close> when the new value cannot be stored; the capacity test itself is
  the user agent's.
\<close>

record Storage =
  items :: "(string \<times> string) list"
  quota :: "nat option"

datatype Error = Error (message: string)

definition QuotaExceededError :: Error where
  "QuotaExceededError = Error ''The quota has been exceeded.''"

definition usage :: "(string \<times> string) list \<Rightarrow> nat" where
  "usage xs = sum_list (map (\<lambda>(k, v). length k + length v) xs)"

definition getItem :: "string \<Rightarrow> Storage \<Rightarrow> string option" where
  "getItem k st = map_of (items st) k"

definition setItem :: "string \<Rightarrow> string \<Rightarrow> Storage \<Rightarrow> Error + Storage" where
  "setItem k v st =
     (let items' = AList.update k v (items st) in
      case quota st of
        None \<Rightarrow> Inr (st\<lparr>items := items'\<rparr>)
      | Some q \<Rightarrow> if q < usage items' then Inl QuotaExceededError
                  else Inr (st\<lparr>items := items'\<rparr>))"

definition removeItem :: "string \<Rightarrow> Storage \<Rightarrow> Storage" where
  "removeItem k st = st\<lparr>items := AList.delete k (items st)\<rparr>"

definition storage_clear :: "Storage \<Rightarrow> Storage" where
  "storage_clear st = st\<lparr>items := []\<rparr>"

definition storage_length :: "Storage \<Rightarrow> nat" where
  "storage_length st = length (items st)"

definition storage_key :: "nat \<Rightarrow> Storage \<Rightarrow> js_value" where
  "storage_key i st = (if i < length (items st) then Str (fst (items st ! i)) else Null)"

text \<open>The value \<^verbatim>\<open>getItem\<close> hands to JavaScript: the string, or \<^verbatim>\<open>null\<close>.\<close>

fun item_value :: "string option \<Rightarrow> js_value" where
  "item_value None = Null"
| "item_value (Some v) = Str v"

section \<open>The hub's storage functions\<close>

text \<open>The string a \<^verbatim>\<open>key\<close> argument becomes where the engine expects one string.\<close>

fun key_string :: "key_arg \<Rightarrow> string" where
  "key_string KeyAbsent = ''undefined''"
| "key_string (Key k) = k"
| "key_string (Keys ks) = join '','' ks"

definition hub_set :: "key_arg \<Rightarrow> js_value \<Rightarrow> Storage \<Rightarrow> Error + Storage" where
  "hub_set key val st = setItem (key_string key) (ToString val) st"

text \<open>
  \<^verbatim>\<open>acc[k] = v\<close> on the accumulator of \<^verbatim>\<open>get\<close>, an object literal: the assignment to
  \<^verbatim>\<open>__proto__\<close> goes to the prototype setter and adds no property.
\<close>

definition assign :: "(string \<times> js_value) list \<Rightarrow> string \<Rightarrow> js_value \<Rightarrow> (string \<times> js_value) list" where
  "assign acc k v = (if k = ''__proto__'' then acc else AList.update k v acc)"

fun hub_get :: "key_arg \<Rightarrow> Storage \<Rightarrow> js_value" where
  "hub_get (Keys ks) st =
     Record (foldl (\<lambda>acc k. assign acc k (item_value (getItem k st))) [] ks)"
| "hub_get key st = item_value (getItem (key_string key) st)"

fun hub_del :: "key_arg \<Rightarrow> Storage \<Rightarrow> Storage" where
  "hub_del (Keys ks) st = foldl (\<lambda>s k. removeItem k s) st ks"
| "hub_del key st = removeItem (key_string key) st"

definition hub_clear :: "Storage \<Rightarrow> Storage" where
  "hub_clear st = storage_clear st"

function getKeys_loop :: "nat \<Rightarrow> js_value list \<Rightarrow> Storage \<Rightarrow> js_value list" where
  "getKeys_loop i result st =
     (if i < storage_length st then getKeys_loop (i + 1) (result @ [storage_key i st]) st
      else result)"
  by pat_completeness auto
termination
  by (relation "measure (\<lambda>(i, result, st). storage_length st - i)") auto

declare getKeys_loop.simps [simp del]

definition hub_getKeys :: "Storage \<Rightarrow> js_value" where
  "hub_getKeys st = Array (getKeys_loop 0 [] st)"

section \<open>The hub\<close>

text \<open>
  The origin of a permission is a string or a \<^verbatim>\<open>RegExp\<close>. A regular expression is
  modelled by the set of strings its \<^verbatim>\<open>test\<close> accepts (a pattern without the
  \<^verbatim>\<open>g\<close> and \<^verbatim>\<open>y\<close> flags, whose \<^verbatim>\<open>test\<close> keeps no state).
\<close>

datatype origin_matcher = OriginString string | OriginRegExp "string \<Rightarrow> bool"

datatype allow_spec = AllowAll | AllowList "CrossStorageAction list"

record CrossStoragePermission =
  perm_origin :: origin_matcher
  perm_allow :: allow_spec

datatype watch_spec = WatchBool bool | WatchKeys "string list"

record CrossStorageHub =
  available :: bool
  permissions :: "CrossStoragePermission list"
  watchKeys :: watch_spec

text \<open>
  What the hub's document holds besides the hub object: the storage area, the calls of
  \<^verbatim>\<open>postMessage\<close> made so far, and whether the two listeners are registered.
\<close>

record hub_world =
  storage :: Storage
  posted :: "post list"
  message_listener :: bool
  storage_listener :: bool

definition allowedMethods :: "CrossStorageAction list" where
  "allowedMethods = [SET, GET, DEL, GET_KEYS, CLEAR]"

text \<open>\<^verbatim>\<open>allowedMethods.has(method)\<close>, giving the member found.\<close>

definition allowed_method :: "string \<Rightarrow> CrossStorageAction option" where
  "allowed_method m = find (\<lambda>a. action_name a = m) allowedMethods"

text \<open>\<^verbatim>\<open>Array.prototype.some\<close> and \<^verbatim>\<open>Array.prototype.includes\<close>.\<close>

primrec some :: "('a \<Rightarrow> bool) \<Rightarrow> 'a list \<Rightarrow> bool" where
  "some f [] = False"
| "some f (x # xs) = (if f x then True else some f xs)"

primrec array_includes :: "'a list \<Rightarrow> 'a \<Rightarrow> bool" where
  "array_includes [] y = False"
| "array_includes (x # xs) y = (if x = y then True else array_includes xs y)"

text \<open>The callback of \<^verbatim>\<open>_permitted\<close>, and \<^verbatim>\<open>_permitted\<close> itself.\<close>

definition permitted_entry :: "string \<Rightarrow> CrossStorageAction \<Rightarrow> CrossStoragePermission \<Rightarrow> bool" where
  "permitted_entry origin method entry =
     (let origin_ok =
        (case perm_origin entry of
           OriginString s \<Rightarrow> \<not> (origin \<noteq> s)
         | OriginRegExp r \<Rightarrow> r origin)
      in if \<not> origin_ok then False
         else case perm_allow entry of
                AllowAll \<Rightarrow> True
              | AllowList as \<Rightarrow> array_includes as method)"

definition hub_permitted :: "CrossStorageHub \<Rightarrow> string \<Rightarrow> CrossStorageAction \<Rightarrow> bool" where
  "hub_permitted h origin method = some (permitted_entry origin method) (permissions h)"

definition postMessage :: "window_ref \<Rightarrow> wire \<Rightarrow> string \<Rightarrow> hub_world \<Rightarrow> hub_world" where
  "postMessage win d targetOrigin w =
     w\<lparr>posted := posted w @ [\<lparr>post_window = win, post_data = d, post_targetOrigin = targetOrigin\<rparr>]\<rparr>"

definition hub_response ::
  "string \<Rightarrow> CrossStorageRequest \<Rightarrow> string option \<Rightarrow> js_value \<Rightarrow> hub_world \<Rightarrow> hub_world" where
  "hub_response origin request err result w =
     (let response = JsonResponse \<lparr>res_id = req_id request, res_method = req_method request,
                                   res_error = err, res_result = result\<rparr>;
          targetOrigin = (if origin = ''file://'' then ''*'' else origin)
      in postMessage WindowParent response targetOrigin w)"

text \<open>The \<^verbatim>\<open>switch\<close> of \<^verbatim>\<open>_onListener\<close>: the result and the storage after it, or the
  exception the engine raised.\<close>

fun execute :: "CrossStorageAction \<Rightarrow> CrossStorageRequest \<Rightarrow> Storage \<Rightarrow> Error + (js_value \<times> Storage)" where
  "execute GET request st = Inr (hub_get (req_key request) st, st)"
| "execute SET request st =
     (case hub_set (req_key request) (req_value request) st of
        Inl e \<Rightarrow> Inl e
      | Inr st' \<Rightarrow> Inr (Undefined, st'))"
| "execute DEL request st = Inr (Undefined, hub_del (req_key request) st)"
| "execute CLEAR request st = Inr (Undefined, hub_clear st)"
| "execute GET_KEYS request st = Inr (hub_getKeys st, st)"

definition invalid_method_message :: "string \<Rightarrow> string" where
  "invalid_method_message method =
     ''Invalid method '' @ method @ '', allowed methods are '' @
     join '', '' (map action_name allowedMethods)"

text \<open>
  What \<^verbatim>\<open>JSON.parse(message.data)\<close> gives the hub, read as a request. An object that was
  written as a response has an \<^verbatim>\<open>id\<close> and a \<^verbatim>\<open>method\<close> but neither \<^verbatim>\<open>key\<close> nor
  \<^verbatim>\<open>value\<close>. \<open>None\<close>: the text does not parse, or parses to something whose \<^verbatim>\<open>id\<close> is
  \<^verbatim>\<open>undefined\<close> or cannot be read; the handler returns on each of them.
\<close>

fun as_request :: "wire \<Rightarrow> CrossStorageRequest option" where
  "as_request (Text s) = None"
| "as_request (JsonRequest r) = Some r"
| "as_request (JsonResponse r) =
     Some \<lparr>req_id = res_id r, req_method = res_method r, req_key = KeyAbsent, req_value = Undefined\<rparr>"

definition hub_onListener :: "CrossStorageHub \<Rightarrow> MessageEvent \<Rightarrow> hub_world \<Rightarrow> hub_world" where
  "hub_onListener h msg w =
     (let origin = (if msg_origin msg = ''null'' then ''file://'' else msg_origin msg) in
      if msg_data msg = Text EVENT_POLL
      then postMessage WindowParent (Text EVENT_READY) (msg_origin msg) w
      else if msg_data msg = Text EVENT_READY then w
      else (case as_request (msg_data msg) of
        None \<Rightarrow> w
      | Some request \<Rightarrow>
          if falsy (req_id request) \<or> falsy (req_method request) then w
          else (let method = the (req_method request) in
            (case allowed_method method of
              None \<Rightarrow> hub_response origin request (Some (invalid_method_message method)) Null w
            | Some action \<Rightarrow>
                if \<not> hub_permitted h origin action
                then hub_response origin request (Some (''Invalid permissions for '' @ method)) Null w
                else (case execute action request (storage w) of
                  Inl err \<Rightarrow> hub_response origin request (Some (message err)) Null w
                | Inr (result, st') \<Rightarrow>
                    hub_response origin request None result (w\<lparr>storage := st'\<rparr>))))))"

text \<open>A \<^verbatim>\<open>StorageEvent\<close>: the area it comes from, the key (\<^verbatim>\<open>null\<close> after \<^verbatim>\<open>clear()\<close>) and
  the old and new values.\<close>

datatype storage_area = LocalStorage | SessionStorage

record StorageEvent =
  storageArea :: storage_area
  key :: "string option"
  oldValue :: "string option"
  newValue :: "string option"

definition hub_onStorage :: "CrossStorageHub \<Rightarrow> StorageEvent \<Rightarrow> hub_world \<Rightarrow> hub_world" where
  "hub_onStorage h event w =
     (if storageArea event \<noteq> LocalStorage then w
      else if falsy (key event)
      then postMessage WindowParent (Text (EVENT_CHANGE @ '':*'')) ''*'' w
      else let k = the (key event) in
        if (case watchKeys h of WatchKeys ks \<Rightarrow> \<not> array_includes ks k | WatchBool b \<Rightarrow> False)
        then w
        else postMessage WindowParent (Text (EVENT_CHANGE @ '':'' @ k)) ''*'' w)"

text \<open>\<^verbatim>\<open>if (keys)\<close>: an array, also an empty one, and \<^verbatim>\<open>true\<close> are truthy.\<close>

fun truthy_watch :: "watch_spec option \<Rightarrow> bool" where
  "truthy_watch None = False"
| "truthy_watch (Some (WatchBool b)) = b"
| "truthy_watch (Some (WatchKeys ks)) = True"

definition hub_init ::
  "CrossStorageHub \<Rightarrow> CrossStoragePermission list \<Rightarrow> watch_spec option \<Rightarrow> hub_world
     \<Rightarrow> CrossStorageHub \<times> hub_world" where
  "hub_init h perms keys w =
     (if \<not> available h
      then (h, postMessage WindowParent (Text EVENT_UNAVAILABLE) ''*'' w)
      else
        let h1 = h\<lparr>permissions := perms\<rparr>;
            w1 = w\<lparr>message_listener := True\<rparr>;
            w2 = postMessage WindowParent (Text EVENT_READY) ''*'' w1
        in if truthy_watch keys
           then (h1\<lparr>watchKeys := the keys\<rparr>, w2\<lparr>storage_listener := True\<rparr>)
           else (h1, w2))"

section \<open>The client\<close>

text \<open>
  The page the client runs in. An element of its document has an identity (\<open>node\<close>), an
  \<^verbatim>\<open>id\<close> attribute and, when it is a frame, a content window. The document lists its
  elements in tree order; an element that was removed is not in the list, and its
  content window is gone with it.
\<close>

record element =
  node :: nat
  el_id :: string
  contentWindow :: "window_ref option"

text \<open>
  A JavaScript number that the code only prints and hands to \<^verbatim>\<open>setTimeout\<close>
  (\<^verbatim>\<open>options.timeout\<close>): it is kept as the string a template literal prints for it, so
  \<^verbatim>\<open>30_000\<close> is \<open>Number ''30000''\<close> and \<^verbatim>\<open>1e21\<close> is \<open>Number ''1e+21''\<close>.
\<close>

datatype js_number = Number (number_text: string)

text \<open>
  The \<^verbatim>\<open>value\<close> given to \<^verbatim>\<open>set\<close>, typed \<^verbatim>\<open>any\<close>: a value \<^verbatim>\<open>JSON.stringify\<close> writes out, or one
  it raises a \<^verbatim>\<open>TypeError\<close> on (a BigInt, an object that contains itself).
\<close>

datatype any_value = Serializable js_value | Unserializable

text \<open>
  What a promise is rejected with: an \<^verbatim>\<open>Error\<close> the client makes, with its message, or an
  exception of the host, whose message is the host's.
\<close>

datatype rejection = ClientError string | TypeError | SyntaxError

text \<open>
  A promise is pending, fulfilled (with the client itself, by \<^verbatim>\<open>connect\<close>, or with the
  result of a response) or rejected. Settling a promise that is not pending does
  nothing.
\<close>

datatype promise_state =
    Pending
  | FulfilledClient
  | Fulfilled js_value
  | Rejected rejection

text \<open>
  The two closures given to \<^verbatim>\<open>setTimeout\<close>, with what they capture: the promise of a
  \<^verbatim>\<open>connect\<close>; the request id, the method and the promise of a \<^verbatim>\<open>_request\<close>.
\<close>

datatype timer_action =
    ConnectTimeout nat
  | RequestTimeout string CrossStorageAction nat

record timer =
  timer_delay :: js_number
  timer_action :: timer_action

text \<open>
  The closure stored in \<^verbatim>\<open>_requests\<close> captures the timeout handle, the request id and the
  promise; the one pushed on \<^verbatim>\<open>_connects\<close> captures the timeout handle and the promise.
\<close>

record request_callback =
  rc_timeout :: nat
  rc_id :: string
  rc_promise :: nat

record connect_callback =
  cc_timeoutId :: nat
  cc_promise :: nat

text \<open>A watcher is a function of the caller's; the model keeps its identity.\<close>

type_synonym WatchHandler = nat

record page =
  document :: "element list"
  next_node :: nat
  listening :: bool
  timers :: "(nat \<times> timer) list"
  intervals :: "nat list"
  next_timer :: nat
  promises :: "(nat \<times> promise_state) list"
  next_promise :: nat
  hub_posts :: "post list"
  watcher_calls :: "(WatchHandler \<times> string option) list"

record CrossStorageClientOptions =
  opt_frameId :: "string option"
  opt_timeout :: "js_number option"

record CrossStorageClient =
  client_id :: string
  client_url :: string
  client_options :: CrossStorageClientOptions
  client_origin :: string
  connected :: bool
  closed :: bool
  count :: nat
  frame :: "nat option"
  requests :: "(string \<times> request_callback) list"
  connects :: "connect_callback list"
  watchers :: "WatchHandler list"

subsection \<open>Host functions\<close>

text \<open>\<^verbatim>\<open>document.getElementById\<close>: the first element in tree order with that id; an element
  whose \<^verbatim>\<open>id\<close> attribute is empty has no id.\<close>

definition getElementById :: "string \<Rightarrow> element list \<Rightarrow> element option" where
  "getElementById i doc = (if i = [] then None else find (\<lambda>e. el_id e = i) doc)"

definition remove_element :: "element \<Rightarrow> element list \<Rightarrow> element list" where
  "remove_element e doc = filter (\<lambda>x. node x \<noteq> node e) doc"

definition new_promise :: "page \<Rightarrow> nat \<times> page" where
  "new_promise pg =
     (next_promise pg,
      pg\<lparr>promises := AList.update (next_promise pg) Pending (promises pg),
         next_promise := next_promise pg + 1\<rparr>)"

definition settle :: "nat \<Rightarrow> promise_state \<Rightarrow> page \<Rightarrow> page" where
  "settle p v pg =
     (if map_of (promises pg) p = Some Pending
      then pg\<lparr>promises := AList.update p v (promises pg)\<rparr>
      else pg)"

definition reject :: "nat \<Rightarrow> rejection \<Rightarrow> page \<Rightarrow> page" where
  "reject p err pg = settle p (Rejected err) pg"

definition setTimeout :: "timer_action \<Rightarrow> js_number \<Rightarrow> page \<Rightarrow> nat \<times> page" where
  "setTimeout act delay pg =
     (next_timer pg,
      pg\<lparr>timers := AList.update (next_timer pg) \<lparr>timer_delay = delay, timer_action = act\<rparr> (timers pg),
         next_timer := next_timer pg + 1\<rparr>)"

definition clearTimeout :: "nat \<Rightarrow> page \<Rightarrow> page" where
  "clearTimeout t pg = pg\<lparr>timers := AList.delete t (timers pg)\<rparr>"

definition setInterval :: "page \<Rightarrow> nat \<times> page" where
  "setInterval pg =
     (next_timer pg, pg\<lparr>intervals := intervals pg @ [next_timer pg], next_timer := next_timer pg + 1\<rparr>)"

definition clearInterval :: "nat \<Rightarrow> page \<Rightarrow> page" where
  "clearInterval t pg = pg\<lparr>intervals := filter (\<lambda>x. x \<noteq> t) (intervals pg)\<rparr>"

text \<open>
  \<^verbatim>\<open>win.postMessage(data, targetOrigin)\<close> on the hub's window. The host raises a
  \<^verbatim>\<open>SyntaxError\<close> for a target origin that is neither \<^verbatim>\<open>*\<close> nor \<^verbatim>\<open>/\<close> nor a URL. The client
  passes \<^verbatim>\<open>*\<close> or the origin of a URL, which is the serialisation of a scheme, host and port,
  or \<^verbatim>\<open>null\<close> for an opaque origin: of these, \<^verbatim>\<open>null\<close> is the one that is refused.
\<close>

definition post_to_hub :: "window_ref \<Rightarrow> wire \<Rightarrow> string \<Rightarrow> page \<Rightarrow> rejection + page" where
  "post_to_hub win d targetOrigin pg =
     (if targetOrigin = ''null'' then Inl SyntaxError
      else Inr (pg\<lparr>hub_posts := hub_posts pg @
        [\<lparr>post_window = win, post_data = d, post_targetOrigin = targetOrigin\<rparr>]\<rparr>))"

text \<open>\<^verbatim>\<open>JSON.stringify\<close> of the request object \<^verbatim>\<open>{id, method, ...params}\<close>.\<close>

definition JSON_stringify ::
  "string \<Rightarrow> CrossStorageAction \<Rightarrow> key_arg \<Rightarrow> any_value \<Rightarrow> rejection + wire" where
  "JSON_stringify rid method k v =
     (case v of
        Unserializable \<Rightarrow> Inl TypeError
      | Serializable jv \<Rightarrow>
          Inr (JsonRequest \<lparr>req_id = Some rid, req_method = Some (action_name method),
                            req_key = k, req_value = jv\<rparr>))"

text \<open>
  \<^verbatim>\<open>this.count += 1\<close> on a JavaScript number that starts at 0: exact up to \<open>2 ^ 53\<close>, where
  adding 1 gives the same number again.
\<close>

definition js_increment :: "nat \<Rightarrow> nat" where
  "js_increment n = (if n < 9007199254740992 then n + 1 else n)"

text \<open>\<^verbatim>\<open>String.prototype.startsWith\<close>, and a number in a template string.\<close>

definition startsWith :: "string \<Rightarrow> string \<Rightarrow> bool" where
  "startsWith s p = (take (length p) s = p)"

definition digit :: "nat \<Rightarrow> char" where
  "digit n = ''0123456789'' ! n"

function show_nat :: "nat \<Rightarrow> string" where
  "show_nat n = (if n < 10 then [digit n] else show_nat (n div 10) @ [digit (n mod 10)])"
  by pat_completeness auto
termination
  by (relation "measure id") auto

declare show_nat.simps [simp del]

text \<open>\<^verbatim>\<open>Array.prototype.indexOf\<close> and \<^verbatim>\<open>splice(index, n)\<close> as a deletion.\<close>

fun indexOf :: "'a list \<Rightarrow> 'a \<Rightarrow> int" where
  "indexOf [] y = - 1"
| "indexOf (x # xs) y =
     (if x = y then 0 else (let i = indexOf xs y in if i = - 1 then - 1 else i + 1))"

definition array_splice :: "nat \<Rightarrow> nat \<Rightarrow> 'a list \<Rightarrow> 'a list" where
  "array_splice start n xs = take start xs @ drop (start + n) xs"

subsection \<open>Getters\<close>

definition client_frameId :: "CrossStorageClient \<Rightarrow> string" where
  "client_frameId c =
     (case opt_frameId (client_options c) of
        Some f \<Rightarrow> f
      | None \<Rightarrow> ''cross-storage-client-'' @ client_id c)"

definition client_timeout :: "CrossStorageClient \<Rightarrow> js_number" where
  "client_timeout c =
     (case opt_timeout (client_options c) of Some t \<Rightarrow> t | None \<Rightarrow> Number ''30000'')"

definition client_hub :: "CrossStorageClient \<Rightarrow> page \<Rightarrow> window_ref option" where
  "client_hub c pg =
     (case frame c of
        None \<Rightarrow> None
      | Some n \<Rightarrow>
          (case find (\<lambda>e. node e = n) (document pg) of
             None \<Rightarrow> None
           | Some e \<Rightarrow> contentWindow e))"

definition client_targetOrigin :: "CrossStorageClient \<Rightarrow> string" where
  "client_targetOrigin c = (if client_origin c = ''file://'' then ''*'' else client_origin c)"

subsection \<open>Construction, polling and closing\<close>

definition client_poll :: "CrossStorageClient \<Rightarrow> page \<Rightarrow> page" where
  "client_poll c pg = snd (setInterval pg)"

text \<open>The callback of the interval: one tick of handle \<open>interval\<close>.\<close>

definition poll_tick :: "nat \<Rightarrow> CrossStorageClient \<Rightarrow> page \<Rightarrow> page" where
  "poll_tick interval c pg =
     (if connected c then clearInterval interval pg
      else (case client_hub c pg of
              None \<Rightarrow> pg
            | Some hub \<Rightarrow>
                (case post_to_hub hub (Text EVENT_POLL) (client_targetOrigin c) pg of
                   Inl err \<Rightarrow> pg
                 | Inr pg1 \<Rightarrow> pg1)))"

definition client_createFrame :: "CrossStorageClient \<Rightarrow> page \<Rightarrow> nat \<times> page" where
  "client_createFrame c pg =
     (let n = next_node pg;
          fr = \<lparr>node = n, el_id = client_frameId c, contentWindow = Some (WindowOther n)\<rparr>
      in (n, pg\<lparr>document := document pg @ [fr], next_node := n + 1\<rparr>))"

text \<open>
  The constructor. \<open>uid\<close> is the value \<^verbatim>\<open>uuid()\<close> returned and \<open>origin\<close> the value of
  \<^verbatim>\<open>new URL(url).origin\<close>.
\<close>

definition client_new ::
  "string \<Rightarrow> string \<Rightarrow> string \<Rightarrow> CrossStorageClientOptions \<Rightarrow> page \<Rightarrow> CrossStorageClient \<times> page" where
  "client_new uid origin url opts pg =
     (let c = \<lparr>client_id = uid, client_url = url, client_options = opts, client_origin = origin,
               connected = False, closed = False, count = 0, frame = None,
               requests = [], connects = [], watchers = []\<rparr>;
          pg1 = pg\<lparr>listening := True\<rparr>;
          found = (if falsy (opt_frameId opts) then None
                   else getElementById (the (opt_frameId opts)) (document pg1))
      in (case found of
            Some e \<Rightarrow> (c\<lparr>frame := Some (node e)\<rparr>, client_poll (c\<lparr>frame := Some (node e)\<rparr>) pg1)
          | None \<Rightarrow>
              (let (n, pg2) = client_createFrame c pg1 in (c\<lparr>frame := Some n\<rparr>, pg2))))"

definition client_close :: "CrossStorageClient \<Rightarrow> page \<Rightarrow> CrossStorageClient \<times> page" where
  "client_close c pg =
     (let pg1 = (case getElementById (client_frameId c) (document pg) of
                   Some fr \<Rightarrow> pg\<lparr>document := remove_element fr (document pg)\<rparr>
                 | None \<Rightarrow> pg);
          pg2 = pg1\<lparr>listening := False\<rparr>
      in (c\<lparr>closed := True, connected := False\<rparr>, pg2))"

subsection \<open>Connecting and watching\<close>


text \<open>A call \<^verbatim>\<open>cb(err)\<close> of a connect callback; \<open>None\<close> is the call without argument.\<close>

definition connect_callback_call :: "string option \<Rightarrow> page \<Rightarrow> connect_callback \<Rightarrow> page" where
  "connect_callback_call err pg cb =
     (let pg1 = clearTimeout (cc_timeoutId cb) pg
      in (case err of
            Some e \<Rightarrow> reject (cc_promise cb) (ClientError e) pg1
          | None \<Rightarrow> settle (cc_promise cb) FulfilledClient pg1))"

definition client_watch :: "WatchHandler \<Rightarrow> CrossStorageClient \<Rightarrow> CrossStorageClient" where
  "client_watch watcher c = c\<lparr>watchers := watchers c @ [watcher]\<rparr>"

text \<open>The function \<^verbatim>\<open>watch(watcher)\<close> returns.\<close>

definition unwatch :: "WatchHandler \<Rightarrow> CrossStorageClient \<Rightarrow> CrossStorageClient" where
  "unwatch watcher c =
     (let index = indexOf (watchers c) watcher
      in if index > - 1 then c\<lparr>watchers := array_splice (nat index) 1 (watchers c)\<rparr> else c)"

subsection \<open>Requests\<close>

text \<open>A call of the closure stored in \<^verbatim>\<open>_requests\<close> with a response.\<close>

definition request_callback_call ::
  "request_callback \<Rightarrow> CrossStorageResponse \<Rightarrow> CrossStorageClient \<Rightarrow> page
     \<Rightarrow> CrossStorageClient \<times> page" where
  "request_callback_call cb response c pg =
     (let pg1 = clearTimeout (rc_timeout cb) pg;
          c1 = c\<lparr>requests := AList.delete (rc_id cb) (requests c)\<rparr>
      in if \<not> falsy (res_error response)
         then (c1, reject (rc_promise cb) (ClientError (the (res_error response))) pg1)
         else (c1, settle (rc_promise cb) (Fulfilled (res_result response)) pg1))"

text \<open>
  \<^verbatim>\<open>_request\<close>. The executor of the promise sets the timeout, stores the closure in
  \<^verbatim>\<open>_requests\<close> and then evaluates \<^verbatim>\<open>this.hub.postMessage(JSON.stringify(request), ...)\<close>. An
  exception raised there leaves the executor: the promise is rejected with it, and the
  timeout and the entry that were set before stay as they are.
\<close>

definition client_request ::
  "CrossStorageClient \<Rightarrow> CrossStorageAction \<Rightarrow> key_arg \<Rightarrow> any_value \<Rightarrow> page
     \<Rightarrow> nat \<times> CrossStorageClient \<times> page" where
  "client_request c method k v pg =
     (if closed c
      then (let (p, pg1) = new_promise pg
            in (p, c, reject p (ClientError ''CrossStorageClient has been closed'') pg1))
      else if \<not> connected c
      then (let (p, pg1) = new_promise pg
            in (p, c, reject p (ClientError ''CrossStorageClient is not connected'') pg1))
      else
        (let c1 = c\<lparr>count := js_increment (count c)\<rparr>;
             rid = client_id c1 @ '':'' @ show_nat (count c1);
             (p, pg1) = new_promise pg;
             (timeout, pg2) = setTimeout (RequestTimeout rid method p) (client_timeout c1) pg1
         in (case client_hub c1 pg2 of
               None \<Rightarrow>
                 (p, c1, reject p (ClientError ''CrossStorageClient hub is not available'')
                           (clearTimeout timeout pg2))
             | Some hub \<Rightarrow>
                 (let c2 = c1\<lparr>requests := AList.update rid
                             \<lparr>rc_timeout = timeout, rc_id = rid, rc_promise = p\<rparr> (requests c1)\<rparr>
                  in (case JSON_stringify rid method k v of
                        Inl err \<Rightarrow> (p, c2, reject p err pg2)
                      | Inr text \<Rightarrow>
                          (case post_to_hub hub text (client_targetOrigin c2) pg2 of
                             Inl err \<Rightarrow> (p, c2, reject p err pg2)
                           | Inr pg3 \<Rightarrow> (p, c2, pg3)))))))"

definition client_set ::
  "CrossStorageClient \<Rightarrow> string \<Rightarrow> any_value \<Rightarrow> page \<Rightarrow> nat \<times> CrossStorageClient \<times> page" where
  "client_set c k v pg = client_request c SET (Key k) v pg"

definition client_get ::
  "CrossStorageClient \<Rightarrow> key_arg \<Rightarrow> page \<Rightarrow> nat \<times> CrossStorageClient \<times> page" where
  "client_get c k pg = client_request c GET k (Serializable Undefined) pg"

definition client_del ::
  "CrossStorageClient \<Rightarrow> key_arg \<Rightarrow> page \<Rightarrow> nat \<times> CrossStorageClient \<times> page" where
  "client_del c k pg = client_request c DEL k (Serializable Undefined) pg"

definition client_getKeys ::
  "CrossStorageClient \<Rightarrow> page \<Rightarrow> nat \<times> CrossStorageClient \<times> page" where
  "client_getKeys c pg = client_request c GET_KEYS KeyAbsent (Serializable Undefined) pg"

definition client_clear ::
  "CrossStorageClient \<Rightarrow> page \<Rightarrow> nat \<times> CrossStorageClient \<times> page" where
  "client_clear c pg = client_request c CLEAR KeyAbsent (Serializable Undefined) pg"

text \<open>
  The timeout with handle \<open>t\<close> fires: the host drops it from the pending timeouts and
  runs its closure. A handle that is not pending (cleared, or fired before) runs
  nothing.
\<close>

definition fire_timer :: "nat \<Rightarrow> CrossStorageClient \<Rightarrow> page \<Rightarrow> CrossStorageClient \<times> page" where
  "fire_timer t c pg =
     (case map_of (timers pg) t of
        None \<Rightarrow> (c, pg)
      | Some tm \<Rightarrow>
          (let pg1 = pg\<lparr>timers := AList.delete t (timers pg)\<rparr>
           in (case timer_action tm of
                 ConnectTimeout p \<Rightarrow>
                   (c, reject p (ClientError (''CrossStorageClient timed out after '' @
                                 number_text (client_timeout c) @ ''ms'')) pg1)
               | RequestTimeout rid method p \<Rightarrow>
                   if map_of (requests c) rid = None then (c, pg1)
                   else (c\<lparr>requests := AList.delete rid (requests c)\<rparr>,
                         reject p (ClientError (''Timeout: cross-storage:'' @ action_name method @
                                   '' request timed out after '' @
                                   number_text (client_timeout c) @ ''ms'')) pg1))))"

subsection \<open>Incoming messages\<close>

text \<open>
  The string the handler tests. Of the text of an object only three things matter: it is
  not empty, it is none of the signals, and it does not start with \<^verbatim>\<open>cross-storage:\<close>.
  The model keeps the opening brace of such a text.
\<close>

fun text_of :: "wire \<Rightarrow> string" where
  "text_of (Text s) = s"
| "text_of (JsonRequest r) = ''{''"
| "text_of (JsonResponse r) = ''{''"

text \<open>
  What \<^verbatim>\<open>JSON.parse(message.data)\<close> gives the client, read as a response. An object that
  was written as a request has neither \<^verbatim>\<open>error\<close> nor \<^verbatim>\<open>result\<close>. \<open>None\<close>: the handler
  stops, by the \<^verbatim>\<open>catch\<close>, by \<^verbatim>\<open>!response.id\<close>, or by the error of reading \<^verbatim>\<open>id\<close> from
  \<^verbatim>\<open>null\<close>.
\<close>

fun as_response :: "wire \<Rightarrow> CrossStorageResponse option" where
  "as_response (Text s) = None"
| "as_response (JsonResponse r) = Some r"
| "as_response (JsonRequest r) =
     Some \<lparr>res_id = req_id r, res_method = req_method r, res_error = None, res_result = Undefined\<rparr>"

definition call_watchers :: "string option \<Rightarrow> WatchHandler list \<Rightarrow> page \<Rightarrow> page" where
  "call_watchers changeKey ws pg =
     pg\<lparr>watcher_calls := watcher_calls pg @ map (\<lambda>watcher. (watcher, changeKey)) ws\<rparr>"

definition client_onListener ::
  "CrossStorageClient \<Rightarrow> MessageEvent \<Rightarrow> page \<Rightarrow> CrossStorageClient \<times> page" where
  "client_onListener c msg pg =
     (let messageData = text_of (msg_data msg) in
      if closed c \<or> messageData = [] then (c, pg)
      else
        (let origin = (if msg_origin msg = ''null'' then ''file://'' else msg_origin msg) in
         if origin \<noteq> client_origin c then (c, pg)
         else if messageData = EVENT_UNAVAILABLE
         then
           (let (c1, pg1) = (if \<not> closed c then client_close c pg else (c, pg));
                pg2 = (if connects c1 \<noteq> []
                       then foldl (connect_callback_call
                              (Some ''CrossStorageHub unavailable, check if localStorage is enabled in the hub domain''))
                              pg1 (connects c1)
                       else pg1)
            in (c1, pg2))
         else
           (let (c1, pg1) =
                  (if startsWith messageData ''cross-storage:'' \<and> \<not> connected c
                   then (if connects c \<noteq> []
                         then (c\<lparr>connected := True, connects := []\<rparr>,
                               foldl (connect_callback_call None) pg (connects c))
                         else (c\<lparr>connected := True\<rparr>, pg))
                   else (c, pg));
                ws = watchers c1;
                pg2 = (if ws \<noteq> [] \<and> startsWith messageData (EVENT_CHANGE @ '':'')
                       then (let watchKey = drop (length EVENT_CHANGE + 1) messageData;
                                 changeKey = (if watchKey = ''*'' then None else Some watchKey)
                             in call_watchers changeKey ws pg1)
                       else pg1)
            in if messageData = EVENT_READY then (c1, pg2)
               else (case as_response (msg_data msg) of
                       None \<Rightarrow> (c1, pg2)
                     | Some response \<Rightarrow>
                         if falsy (res_id response) then (c1, pg2)
                         else (case map_of (requests c1) (the (res_id response)) of
                                 None \<Rightarrow> (c1, pg2)
                               | Some requestCallback \<Rightarrow>
                                   request_callback_call requestCallback response c1 pg2)))))"

section \<open>Notions of the specification and example inputs\<close>

text \<open>A rule's origin matcher matches an origin; a rule's allow-set holds an action.\<close>

fun origin_matches :: "origin_matcher \<Rightarrow> string \<Rightarrow> bool" where
  "origin_matches (OriginString s) origin = (origin = s)"
| "origin_matches (OriginRegExp r) origin = r origin"

fun allows :: "allow_spec \<Rightarrow> CrossStorageAction \<Rightarrow> bool" where
  "allows AllowAll a = True"
| "allows (AllowList as) a = (a \<in> set as)"

text \<open>
  Permission evaluation in the specification's words: the rules are tried in declaration
  order and the first one whose origin matcher matches decides alone; with no matching
  rule the request is denied.
\<close>

fun first_match_permitted :: "CrossStoragePermission list \<Rightarrow> string \<Rightarrow> CrossStorageAction \<Rightarrow> bool" where
  "first_match_permitted [] origin a = False"
| "first_match_permitted (e # es) origin a =
     (if origin_matches (perm_origin e) origin then allows (perm_allow e) a
      else first_match_permitted es origin a)"

text \<open>Two rules for one origin: the first allows nothing, the second everything.\<close>

definition overlapping_rules :: "CrossStoragePermission list" where
  "overlapping_rules =
     [\<lparr>perm_origin = OriginString ''https://a.example'', perm_allow = AllowList []\<rparr>,
      \<lparr>perm_origin = OriginString ''https://a.example'', perm_allow = AllowAll\<rparr>]"

definition example_storage :: Storage where
  "example_storage = \<lparr>items = [(''x'', ''0''), (''y'', ''2'')], quota = None\<rparr>"

text \<open>A hub that lets \<^verbatim>\<open>https://a.example\<close> get and set, and a world with one stored item.\<close>

definition example_hub :: CrossStorageHub where
  "example_hub =
     \<lparr>available = True,
      permissions = [\<lparr>perm_origin = OriginString ''https://a.example'',
                      perm_allow = AllowList [GET, SET]\<rparr>],
      watchKeys = WatchBool False\<rparr>"

definition example_world :: hub_world where
  "example_world =
     \<lparr>storage = example_storage, posted = [], message_listener = True, storage_listener = False\<rparr>"

definition del_request :: CrossStorageRequest where
  "del_request = \<lparr>req_id = Some ''u:1'', req_method = Some ''del'', req_key = Key ''x'',
                   req_value = Undefined\<rparr>"

text \<open>
  A page with a frame that some other script put there under the id \<^verbatim>\<open>hub\<close>, and a page
  without any element.
\<close>

definition hub_frame :: element where
  "hub_frame = \<lparr>node = 0, el_id = ''hub'', contentWindow = Some (WindowOther 0)\<rparr>"

definition empty_page :: page where
  "empty_page =
     \<lparr>document = [], next_node = 0, listening = False, timers = [], intervals = [],
      next_timer = 0, promises = [], next_promise = 0, hub_posts = [], watcher_calls = []\<rparr>"

definition host_page :: page where
  "host_page = empty_page\<lparr>document := [hub_frame], next_node := 1\<rparr>"

definition hub_url :: string where
  "hub_url = ''https://hub.example/hub.html''"

definition hub_origin :: string where
  "hub_origin = ''https://hub.example''"

text \<open>The client that is handed the frame \<^verbatim>\<open>hub\<close>, and that client closed.\<close>

definition external_new :: "CrossStorageClient \<times> page" where
  "external_new =
     client_new ''u'' hub_origin hub_url \<lparr>opt_frameId = Some ''hub'', opt_timeout = None\<rparr> host_page"

definition external_closed :: "CrossStorageClient \<times> page" where
  "external_closed = client_close (fst external_new) (snd external_new)"

text \<open>
  A client without options on the empty page: it creates its frame. \<open>fresh_client\<close> and
  \<open>client_page\<close> are the client and the page after the constructor, \<open>connected_client\<close>
  the client after the hub's ready signal.
\<close>

definition own_new :: "CrossStorageClient \<times> page" where
  "own_new =
     client_new ''u'' hub_origin hub_url \<lparr>opt_frameId = None, opt_timeout = None\<rparr> empty_page"

definition own_closed :: "CrossStorageClient \<times> page" where
  "own_closed = client_close (fst own_new) (snd own_new)"

definition own_frame :: element where
  "own_frame = \<lparr>node = 0, el_id = ''cross-storage-client-u'',
                 contentWindow = Some (WindowOther 0)\<rparr>"

definition client_page :: page where
  "client_page = empty_page\<lparr>document := [own_frame], next_node := 1, listening := True\<rparr>"

definition fresh_client :: CrossStorageClient where
  "fresh_client =
     \<lparr>client_id = ''u'', client_url = hub_url,
      client_options = \<lparr>opt_frameId = None, opt_timeout = None\<rparr>,
      client_origin = hub_origin, connected = False, closed = False, count = 0,
      frame = Some 0, requests = [], connects = [], watchers = []\<rparr>"

definition connected_client :: CrossStorageClient where
  "connected_client = fresh_client\<lparr>connected := True\<rparr>"






section \<open>Basic facts\<close>

lemma some_iff: "some f xs \<longleftrightarrow> (\<exists>x\<in>set xs. f x)"
  by (induction xs) auto

lemma array_includes_iff: "array_includes xs y \<longleftrightarrow> y \<in> set xs"
  by (induction xs) auto

lemma allowed_method_action_name: "allowed_method (action_name a) = Some a"
  by (cases a) (simp_all add: allowed_method_def allowedMethods_def)

lemma permitted_entry_iff:
  "permitted_entry origin a e \<longleftrightarrow> origin_matches (perm_origin e) origin \<and> allows (perm_allow e) a"
  by (cases "perm_origin e"; cases "perm_allow e")
     (simp_all add: permitted_entry_def array_includes_iff)

lemma hub_permitted_iff:
  "hub_permitted h origin a \<longleftrightarrow>
     (\<exists>e\<in>set (permissions h). origin_matches (perm_origin e) origin \<and> allows (perm_allow e) a)"
  by (simp add: hub_permitted_def some_iff permitted_entry_iff)

lemma posted_postMessage [simp]:
  "posted (postMessage win d t w) =
     posted w @ [\<lparr>post_window = win, post_data = d, post_targetOrigin = t\<rparr>]"
  by (simp add: postMessage_def)

lemma storage_postMessage [simp]: "storage (postMessage win d t w) = storage w"
  by (simp add: postMessage_def)

lemma hub_response_eq:
  "hub_response origin request err result w =
     w\<lparr>posted := posted w @
        [\<lparr>post_window = WindowParent,
          post_data = JsonResponse \<lparr>res_id = req_id request, res_method = req_method request,
                                    res_error = err, res_result = result\<rparr>,
          post_targetOrigin = (if origin = ''file://'' then ''*'' else origin)\<rparr>]\<rparr>"
  by (simp add: hub_response_def postMessage_def Let_def)

section \<open>Permissions\<close>

text \<open>
  C1, as the code has it. \<^verbatim>\<open>_permitted\<close> is \<^verbatim>\<open>permissions.some(...)\<close>: a request is permitted
  exactly when some rule of the list, at any position, matches the sender origin and
  has \<^verbatim>\<open>allow\<close> equal to \<^verbatim>\<open>"*"\<close> or containing the action. A matching rule that does not
  hold the action does not stop the search.
\<close>

theorem permitted_any_match:
  "hub_permitted h origin a \<longleftrightarrow>
     (\<exists>e\<in>set (permissions h). origin_matches (perm_origin e) origin \<and> allows (perm_allow e) a)"
  by (simp add: hub_permitted_def some_iff permitted_entry_iff)

theorem permitted_any_match_witness:
  "hub_permitted \<lparr>available = True, permissions = overlapping_rules, watchKeys = WatchBool False\<rparr>
     ''https://a.example'' DEL"
  using permitted_any_match
    [of "\<lparr>available = True, permissions = overlapping_rules, watchKeys = WatchBool False\<rparr>"
        "''https://a.example''" DEL]
  by (simp add: overlapping_rules_def)

text \<open>
  C1 as stated fails: with a first matching rule whose allow-set is empty and a later
  rule for the same origin allowing everything, the code permits the request, where
  first-match evaluation denies it.
\<close>

theorem permitted_first_match_counterexample:
  "hub_permitted \<lparr>available = True, permissions = overlapping_rules, watchKeys = WatchBool False\<rparr>
     ''https://a.example'' GET
   \<and> \<not> first_match_permitted overlapping_rules ''https://a.example'' GET"
  by (simp add: hub_permitted_def overlapping_rules_def permitted_entry_def)

text \<open>
  C6. A request whose method is one of the five actions, sent from an origin for which
  no rule both matches and holds that action, is answered with one error response
  naming the method, posted to the normalised origin; nothing else of the hub's world
  changes, so the storage after the request is the storage before it.
\<close>

theorem denied_request_gets_error_and_storage_is_kept:
  assumes req: "msg_data msg = JsonRequest request"
    and id: "\<not> falsy (req_id request)"
    and meth: "req_method request = Some (action_name a)"
    and origin: "origin = (if msg_origin msg = ''null'' then ''file://'' else msg_origin msg)"
    and denied: "\<forall>e\<in>set (permissions h).
                   origin_matches (perm_origin e) origin \<longrightarrow> \<not> allows (perm_allow e) a"
  shows "hub_onListener h msg w =
           w\<lparr>posted := posted w @
              [\<lparr>post_window = WindowParent,
                post_data = JsonResponse
                  \<lparr>res_id = req_id request, res_method = Some (action_name a),
                   res_error = Some (''Invalid permissions for '' @ action_name a),
                   res_result = Null\<rparr>,
                post_targetOrigin = (if origin = ''file://'' then ''*'' else origin)\<rparr>]\<rparr>
         \<and> storage (hub_onListener h msg w) = storage w"
proof -
  have np: "\<not> hub_permitted h origin a"
    using denied by (auto simp: hub_permitted_iff)
  have nm: "action_name a \<noteq> []" by (cases a) simp_all
  have step: "hub_onListener h msg w =
     hub_response origin request (Some (''Invalid permissions for '' @ action_name a)) Null w"
    using req id meth np nm origin
    by (simp add: hub_onListener_def Let_def allowed_method_action_name EVENT_POLL_def EVENT_READY_def)
  show ?thesis
    unfolding step by (simp add: hub_response_eq meth)
qed

theorem denied_request_gets_error_and_storage_is_kept_witness:
  "hub_onListener example_hub
     \<lparr>msg_origin = ''https://a.example'', msg_data = JsonRequest del_request,
      msg_source = WindowOther 1\<rparr> example_world =
   example_world\<lparr>posted :=
     [\<lparr>post_window = WindowParent,
       post_data = JsonResponse
         \<lparr>res_id = Some ''u:1'', res_method = Some ''del'',
          res_error = Some ''Invalid permissions for del'', res_result = Null\<rparr>,
       post_targetOrigin = ''https://a.example''\<rparr>]\<rparr>
   \<and> storage (hub_onListener example_hub
        \<lparr>msg_origin = ''https://a.example'', msg_data = JsonRequest del_request,
         msg_source = WindowOther 1\<rparr> example_world) = example_storage"
  using denied_request_gets_error_and_storage_is_kept
    [of "\<lparr>msg_origin = ''https://a.example'', msg_data = JsonRequest del_request,
          msg_source = WindowOther 1\<rparr>"
        del_request DEL "''https://a.example''" example_hub example_world]
  by (simp add: example_hub_def example_world_def del_request_def)

section \<open>Storage operations\<close>

text \<open>
  C7. Round trip over \<^verbatim>\<open>set\<close>, \<^verbatim>\<open>get\<close> and \<^verbatim>\<open>del\<close>: when \<^verbatim>\<open>set(k, v)\<close> has run (the engine
  did not raise, which is always so without a quota), \<^verbatim>\<open>get(k)\<close> returns \<open>v\<close>; after
  \<^verbatim>\<open>del(k)\<close>, \<^verbatim>\<open>get(k)\<close> returns \<^verbatim>\<open>null\<close>.
\<close>

theorem set_get_del_round_trip:
  "(hub_set (Key k) (Str v) st = Inr st' \<longrightarrow> hub_get (Key k) st' = Str v)
   \<and> (quota st = None \<longrightarrow> (\<exists>st'. hub_set (Key k) (Str v) st = Inr st'))
   \<and> hub_get (Key k) (hub_del (Key k) st) = Null"
  by (auto simp: hub_set_def setItem_def getItem_def removeItem_def Let_def
        AList.update_conv AList.delete_conv split: option.splits if_splits)

theorem set_get_del_round_trip_witness:
  "hub_set (Key ''x'') (Str ''1'') example_storage =
     Inr \<lparr>items = [(''x'', ''1''), (''y'', ''2'')], quota = None\<rparr>
   \<and> hub_get (Key ''x'') \<lparr>items = [(''x'', ''1''), (''y'', ''2'')], quota = None\<rparr> = Str ''1''
   \<and> quota example_storage = None
   \<and> hub_get (Key ''x'') (hub_del (Key ''x'') example_storage) = Null"
  using set_get_del_round_trip
    [of "''x''" "''1''" example_storage "\<lparr>items = [(''x'', ''1''), (''y'', ''2'')], quota = None\<rparr>"]
  by (simp add: example_storage_def hub_set_def setItem_def)

text \<open>
  The same round trip through the message handler: a permitted \<^verbatim>\<open>set\<close> request followed by
  a permitted \<^verbatim>\<open>get\<close> request for the same key is answered with the value that was set.
\<close>

lemma permitted_request_is_executed:
  assumes "msg_data msg = JsonRequest request"
    and "\<not> falsy (req_id request)" "req_method request = Some (action_name a)"
    and "hub_permitted h (if msg_origin msg = ''null'' then ''file://'' else msg_origin msg) a"
    and "execute a request (storage w) = Inr (result, st')"
  shows "hub_onListener h msg w =
           hub_response (if msg_origin msg = ''null'' then ''file://'' else msg_origin msg)
             request None result (w\<lparr>storage := st'\<rparr>)"
proof -
  have nm: "action_name a \<noteq> []" by (cases a) simp_all
  show ?thesis
    using assms nm
    by (simp add: hub_onListener_def Let_def allowed_method_action_name EVENT_POLL_def EVENT_READY_def)
qed

lemma set_then_get_through_the_hub:
  assumes set_req: "msg_data set_msg = JsonRequest
            \<lparr>req_id = Some i, req_method = Some ''set'', req_key = Key k, req_value = Str v\<rparr>"
    and get_req: "msg_data get_msg = JsonRequest
            \<lparr>req_id = Some j, req_method = Some ''get'', req_key = Key k, req_value = Undefined\<rparr>"
    and ids: "i \<noteq> []" "j \<noteq> []"
    and origin: "msg_origin set_msg = origin" "msg_origin get_msg = origin" "origin \<noteq> ''null''"
    and perm: "hub_permitted h origin SET" "hub_permitted h origin GET"
    and room: "quota (storage w) = None"
  shows "\<exists>set_post. posted (hub_onListener h get_msg (hub_onListener h set_msg w)) =
           posted w @ [set_post,
             \<lparr>post_window = WindowParent,
              post_data = JsonResponse \<lparr>res_id = Some j, res_method = Some ''get'',
                                        res_error = None, res_result = Str v\<rparr>,
              post_targetOrigin = (if origin = ''file://'' then ''*'' else origin)\<rparr>]"
proof -
  define st' where "st' = (storage w)\<lparr>items := AList.update k v (items (storage w))\<rparr>"
  have ex: "execute SET \<lparr>req_id = Some i, req_method = Some ''set'', req_key = Key k, req_value = Str v\<rparr>
              (storage w) = Inr (Undefined, st')"
    using room by (simp add: hub_set_def setItem_def st'_def Let_def)
  have s1: "hub_onListener h set_msg w =
        hub_response origin \<lparr>req_id = Some i, req_method = Some ''set'', req_key = Key k, req_value = Str v\<rparr>
          None Undefined (w\<lparr>storage := st'\<rparr>)"
    using permitted_request_is_executed [OF set_req, of SET h w Undefined st'] ids origin perm ex
    by simp
  define w1 where "w1 = hub_onListener h set_msg w"
  have st1: "storage w1 = st'" by (simp add: w1_def s1 hub_response_eq)
  have ex2: "execute GET \<lparr>req_id = Some j, req_method = Some ''get'', req_key = Key k, req_value = Undefined\<rparr>
              (storage w1) = Inr (Str v, storage w1)"
    by (simp add: st1 st'_def getItem_def AList.update_conv)
  have s2: "hub_onListener h get_msg w1 =
        hub_response origin \<lparr>req_id = Some j, req_method = Some ''get'', req_key = Key k, req_value = Undefined\<rparr>
          None (Str v) (w1\<lparr>storage := storage w1\<rparr>)"
    using permitted_request_is_executed [OF get_req, of GET h w1 "Str v" "storage w1"] ids origin perm ex2
    by simp
  show ?thesis
    unfolding w1_def [symmetric] s2
    by (simp add: hub_response_eq w1_def s1)
qed

section \<open>Where the hub posts\<close>

text \<open>
  C9. Every call of \<^verbatim>\<open>postMessage\<close> the hub makes, in \<^verbatim>\<open>_init\<close>, in \<^verbatim>\<open>_onListener\<close> and in
  \<^verbatim>\<open>_onStorage\<close>, is made on \<^verbatim>\<open>window.parent\<close>, whatever the source window of the message
  that triggered it: the posts a handler adds all have the parent as their window.
\<close>

theorem hub_posts_only_to_parent:
  "(\<exists>ps. posted (hub_onListener h msg w) = posted w @ ps
         \<and> (\<forall>p\<in>set ps. post_window p = WindowParent))
   \<and> (\<exists>ps. posted (hub_onStorage h event w) = posted w @ ps
         \<and> (\<forall>p\<in>set ps. post_window p = WindowParent))
   \<and> (\<exists>ps. posted (snd (hub_init h perms keys w)) = posted w @ ps
         \<and> (\<forall>p\<in>set ps. post_window p = WindowParent))"
proof (intro conjI)
  show "\<exists>ps. posted (hub_onListener h msg w) = posted w @ ps
          \<and> (\<forall>p\<in>set ps. post_window p = WindowParent)"
    by (auto simp: hub_onListener_def hub_response_eq Let_def
          split: option.splits sum.splits prod.splits)
  show "\<exists>ps. posted (hub_onStorage h event w) = posted w @ ps
          \<and> (\<forall>p\<in>set ps. post_window p = WindowParent)"
    by (auto simp: hub_onStorage_def Let_def split: watch_spec.splits)
  show "\<exists>ps. posted (snd (hub_init h perms keys w)) = posted w @ ps
          \<and> (\<forall>p\<in>set ps. post_window p = WindowParent)"
    by (auto simp: hub_init_def Let_def postMessage_def)
qed

theorem hub_posts_only_to_parent_witness:
  "map post_window (posted (hub_onListener example_hub
      \<lparr>msg_origin = ''https://a.example'', msg_data = Text EVENT_POLL,
       msg_source = WindowOther 1\<rparr> example_world)) = [WindowParent]
   \<and> map post_window (posted (hub_onStorage example_hub
      \<lparr>storageArea = LocalStorage, key = Some ''x'', oldValue = None, newValue = Some ''1''\<rparr>
      example_world)) = [WindowParent]
   \<and> map post_window (posted (snd (hub_init example_hub [] (Some (WatchBool True)) example_world)))
       = [WindowParent]"
  using hub_posts_only_to_parent
    [of example_hub
        "\<lparr>msg_origin = ''https://a.example'', msg_data = Text EVENT_POLL, msg_source = WindowOther 1\<rparr>"
        example_world
        "\<lparr>storageArea = LocalStorage, key = Some ''x'', oldValue = None, newValue = Some ''1''\<rparr>"
        "[]" "Some (WatchBool True)"]
  by (simp add: hub_onListener_def hub_onStorage_def hub_init_def example_hub_def
        example_world_def postMessage_def Let_def)

section \<open>The origin of a local file\<close>

text \<open>
  A request that arrives with the origin \<^verbatim>\<open>"null"\<close> is checked against the rules under
  \<^verbatim>\<open>file://\<close> and answered through \<^verbatim>\<open>_response\<close>, with the target origin \<^verbatim>\<open>"*"\<close>.
\<close>

lemma request_from_null_origin:
  assumes "as_request d = Some request" "\<not> falsy (req_id request)" "\<not> falsy (req_method request)"
  shows "\<exists>resp. posted (hub_onListener h \<lparr>msg_origin = ''null'', msg_data = d, msg_source = src\<rparr> w) =
           posted w @ [\<lparr>post_window = WindowParent, post_data = JsonResponse resp,
                        post_targetOrigin = ''*''\<rparr>]"
  using assms
  by (cases d)
     (auto simp: hub_onListener_def hub_response_eq Let_def
        split: option.splits sum.splits prod.splits)

text \<open>A request from \<^verbatim>\<open>"null"\<close> that the rules do not permit for \<^verbatim>\<open>file://\<close> is refused.\<close>

lemma request_from_null_origin_is_checked_as_file:
  assumes "msg_data msg = JsonRequest request" "msg_origin msg = ''null''"
    and "\<not> falsy (req_id request)" "req_method request = Some (action_name a)"
    and "\<not> hub_permitted h ''file://'' a"
  shows "hub_onListener h msg w =
           hub_response ''file://'' request (Some (''Invalid permissions for '' @ action_name a)) Null w"
proof -
  have nm: "action_name a \<noteq> []" by (cases a) simp_all
  show ?thesis
    using assms nm
    by (simp add: hub_onListener_def Let_def allowed_method_action_name EVENT_POLL_def EVENT_READY_def)
qed

text \<open>
  C3 at a poll. The branch that answers \<^verbatim>\<open>cross-storage:poll\<close> passes \<^verbatim>\<open>message.origin\<close> to
  \<^verbatim>\<open>postMessage\<close>, not the normalised origin: for a sender whose origin is reported as
  \<^verbatim>\<open>"null"\<close>, the ready reply is posted with the target origin \<^verbatim>\<open>"null"\<close>, not \<^verbatim>\<open>"*"\<close>.
\<close>

theorem poll_from_null_origin_is_answered_to_null:
  "hub_onListener h \<lparr>msg_origin = ''null'', msg_data = Text EVENT_POLL, msg_source = src\<rparr> w =
     w\<lparr>posted := posted w @
        [\<lparr>post_window = WindowParent, post_data = Text EVENT_READY, post_targetOrigin = ''null''\<rparr>]\<rparr>"
  by (simp add: hub_onListener_def postMessage_def)

section \<open>Storage events\<close>

text \<open>An event of the hub's storage area without a key is a bulk clear: one wildcard
  notification.\<close>

lemma onStorage_clear:
  assumes "storageArea event = LocalStorage" "key event = None"
  shows "hub_onStorage h event w =
     w\<lparr>posted := posted w @
        [\<lparr>post_window = WindowParent, post_data = Text ''cross-storage:change:*'',
          post_targetOrigin = ''*''\<rparr>]\<rparr>"
  using assms
  by (simp add: hub_onStorage_def postMessage_def EVENT_CHANGE_def)

text \<open>An event with a key that is not the empty string: nothing when a specific watch list
  does not hold the key, else one notification that carries the key and nothing of the
  old or new value.\<close>

lemma onStorage_keyed:
  assumes "storageArea event = LocalStorage" "key event = Some k" "k \<noteq> []"
  shows "hub_onStorage h event w =
     (if (case watchKeys h of WatchKeys ks \<Rightarrow> k \<notin> set ks | WatchBool b \<Rightarrow> False) then w
      else w\<lparr>posted := posted w @
        [\<lparr>post_window = WindowParent, post_data = Text (''cross-storage:change:'' @ k),
          post_targetOrigin = ''*''\<rparr>]\<rparr>)"
  using assms
  by (simp add: hub_onStorage_def postMessage_def EVENT_CHANGE_def array_includes_iff
        split: watch_spec.splits)

text \<open>
  C5 at the empty key. \<^verbatim>\<open>if (!key)\<close> holds of \<^verbatim>\<open>null\<close> and of the empty string, which is a
  key a document can store under. With the watch list \<^verbatim>\<open>['token']\<close>, a mutation of the
  item whose key is the empty string is not dropped: the hub broadcasts the wildcard
  notification.
\<close>

theorem empty_key_event_broadcasts_wildcard:
  "hub_onStorage \<lparr>available = True, permissions = [], watchKeys = WatchKeys [''token'']\<rparr>
     \<lparr>storageArea = LocalStorage, key = Some [], oldValue = None, newValue = Some ''v''\<rparr> w =
   w\<lparr>posted := posted w @
      [\<lparr>post_window = WindowParent, post_data = Text ''cross-storage:change:*'',
        post_targetOrigin = ''*''\<rparr>]\<rparr>"
  by (simp add: hub_onStorage_def postMessage_def EVENT_CHANGE_def)

text \<open>
  C10 at the empty key. \<^verbatim>\<open>_init\<close> with the watch list \<^verbatim>\<open>[]\<close> registers the storage
  listener, the array being truthy. A mutation of the item whose key is the empty string
  then produces a notification, the wildcard one: the membership test is not reached.
\<close>

theorem empty_watch_list_empty_key_broadcasts:
  "hub_init \<lparr>available = True, permissions = [], watchKeys = WatchBool False\<rparr> perms
      (Some (WatchKeys []))
      \<lparr>storage = st, posted = [], message_listener = False, storage_listener = False\<rparr> =
     (\<lparr>available = True, permissions = perms, watchKeys = WatchKeys []\<rparr>,
      \<lparr>storage = st,
       posted = [\<lparr>post_window = WindowParent, post_data = Text EVENT_READY,
                  post_targetOrigin = ''*''\<rparr>],
       message_listener = True, storage_listener = True\<rparr>)
   \<and> posted (hub_onStorage \<lparr>available = True, permissions = perms, watchKeys = WatchKeys []\<rparr>
        \<lparr>storageArea = LocalStorage, key = Some [], oldValue = None, newValue = Some ''v''\<rparr>
        \<lparr>storage = st, posted = [], message_listener = True, storage_listener = True\<rparr>) =
      [\<lparr>post_window = WindowParent, post_data = Text ''cross-storage:change:*'',
        post_targetOrigin = ''*''\<rparr>]"
  by (simp add: hub_init_def hub_onStorage_def postMessage_def EVENT_CHANGE_def Let_def)

section \<open>Watchers\<close>

lemma indexOf_bounds: "- 1 \<le> indexOf xs y"
  by (induction xs) (auto simp: Let_def)

lemma indexOf_not_found: "indexOf xs y = - 1 \<longleftrightarrow> y \<notin> set xs"
proof (induction xs)
  case Nil
  then show ?case by simp
next
  case (Cons x xs)
  have "- 1 \<le> indexOf xs y" by (rule indexOf_bounds)
  with Cons show ?case by (auto simp: Let_def)
qed

lemma splice_indexOf: "y \<in> set xs \<Longrightarrow> array_splice (nat (indexOf xs y)) 1 xs = remove1 y xs"
proof (induction xs)
  case Nil
  then show ?case by simp
next
  case (Cons x xs)
  show ?case
  proof (cases "x = y")
    case True
    then show ?thesis by (simp add: array_splice_def)
  next
    case False
    with Cons.prems have mem: "y \<in> set xs" by simp
    have ne: "indexOf xs y \<noteq> - 1" using mem by (simp add: indexOf_not_found)
    have ge: "0 \<le> indexOf xs y"
      using indexOf_bounds [of xs y] ne by linarith
    have "nat (indexOf xs y + 1) = Suc (nat (indexOf xs y))" using ge by simp
    with Cons.IH [OF mem] False ne show ?thesis
      by (simp add: array_splice_def Let_def)
  qed
qed

lemma unwatch_absent: "f \<notin> set (watchers c) \<Longrightarrow> unwatch f c = c"
proof -
  assume "f \<notin> set (watchers c)"
  then have "indexOf (watchers c) f = - 1" by (simp add: indexOf_not_found)
  then show ?thesis by (simp add: unwatch_def Let_def)
qed

lemma unwatch_eq: "unwatch f c = c\<lparr>watchers := remove1 f (watchers c)\<rparr>"
proof (cases "f \<in> set (watchers c)")
  case True
  then have "indexOf (watchers c) f \<noteq> - 1" by (simp add: indexOf_not_found)
  with indexOf_bounds [of "watchers c" f] have gt: "indexOf (watchers c) f > - 1" by linarith
  have "unwatch f c = c\<lparr>watchers := array_splice (nat (indexOf (watchers c) f)) 1 (watchers c)\<rparr>"
    using gt by (simp only: unwatch_def Let_def if_True)
  then show ?thesis by (simp only: splice_indexOf [OF True])
next
  case False
  then show ?thesis by (simp add: unwatch_absent remove1_idem)
qed

lemma remove1_at_most_once: "count_list xs f \<le> 1 \<Longrightarrow> f \<notin> set (remove1 f xs)"
proof (induction xs)
  case Nil
  then show ?case by simp
next
  case (Cons x xs)
  show ?case
  proof (cases "x = f")
    case True
    with Cons.prems have "count_list xs f = 0" by simp
    then have "f \<notin> set xs" by (simp add: count_list_0_iff)
    with True show ?thesis by simp
  next
    case False
    with Cons.prems have "count_list xs f \<le> 1" by simp
    with Cons.IH False show ?thesis by auto
  qed
qed

lemma unwatch_funpow_absent: "f \<notin> set (watchers c) \<Longrightarrow> (unwatch f ^^ n) c = c"
  by (induction n) (simp_all add: unwatch_absent)

text \<open>
  C8, as the code has it. The function \<^verbatim>\<open>watch(f)\<close> returns runs \<^verbatim>\<open>indexOf(f)\<close> on the
  watcher list as it is when the function is invoked. Every invocation, in whatever
  state of the client, removes the first entry equal to \<open>f\<close> and leaves every other entry
  in place; an invocation made while \<open>f\<close> is not in the list changes nothing. So when \<open>f\<close>
  is in the list at most once, the invocations after the first change nothing, and
  after \<^verbatim>\<open>watch(f)\<close> on a list without \<open>f\<close> any number of invocations gives back the client
  as it was before the registration.
\<close>

theorem unwatch_removes_first_occurrence:
  "unwatch f c = c\<lparr>watchers := remove1 f (watchers c)\<rparr>
   \<and> (f \<notin> set (watchers c) \<longrightarrow> unwatch f c = c)
   \<and> (count_list (watchers c) f \<le> 1 \<longrightarrow> (unwatch f ^^ Suc n) c = unwatch f c)
   \<and> (f \<notin> set (watchers c) \<longrightarrow> (unwatch f ^^ Suc n) (client_watch f c) = c)"
proof (intro conjI impI)
  show "unwatch f c = c\<lparr>watchers := remove1 f (watchers c)\<rparr>" by (rule unwatch_eq)
next
  assume "f \<notin> set (watchers c)"
  then show "unwatch f c = c" by (rule unwatch_absent)
next
  assume once: "count_list (watchers c) f \<le> 1"
  have gone: "f \<notin> set (watchers (unwatch f c))"
    using remove1_at_most_once [OF once] by (simp add: unwatch_eq)
  have "(unwatch f ^^ Suc n) c = (unwatch f ^^ n) (unwatch f c)"
    by (simp only: funpow_Suc_right o_apply)
  then show "(unwatch f ^^ Suc n) c = unwatch f c"
    by (simp only: unwatch_funpow_absent [OF gone])
next
  assume nin: "f \<notin> set (watchers c)"
  have first: "unwatch f (client_watch f c) = c"
    using nin by (simp add: unwatch_eq client_watch_def remove1_append)
  have "(unwatch f ^^ Suc n) (client_watch f c) = (unwatch f ^^ n) (unwatch f (client_watch f c))"
    by (simp only: funpow_Suc_right o_apply)
  then show "(unwatch f ^^ Suc n) (client_watch f c) = c"
    by (simp only: first unwatch_funpow_absent [OF nin])
qed

theorem unwatch_removes_first_occurrence_witness:
  "watchers (client_watch 3 (client_watch 7 fresh_client)) = [7, 3]
   \<and> count_list [7, 3] (7::nat) \<le> 1
   \<and> watchers (unwatch 7 (client_watch 3 (client_watch 7 fresh_client))) = [3]
   \<and> (unwatch 7 ^^ Suc 2) (client_watch 3 (client_watch 7 fresh_client)) =
       client_watch 3 fresh_client
   \<and> (7::nat) \<notin> set (watchers (client_watch 3 fresh_client))
   \<and> unwatch 7 (client_watch 3 fresh_client) = client_watch 3 fresh_client
   \<and> (unwatch 7 ^^ Suc 2) (client_watch 7 (client_watch 3 fresh_client)) =
       client_watch 3 fresh_client"
  using unwatch_removes_first_occurrence [of 7 "client_watch 3 (client_watch 7 fresh_client)" 2]
    unwatch_removes_first_occurrence [of 7 "client_watch 3 fresh_client" 2]
  by (simp add: client_watch_def fresh_client_def)

text \<open>
  C8 as stated fails when one function is registered twice: the second invocation of the
  function returned by \<^verbatim>\<open>watch\<close> is not a no-op, it removes the registration that was
  left.
\<close>

theorem unwatch_twice_counterexample:
  "watchers (unwatch 7 (client_watch 7 (client_watch 7 fresh_client))) = [7]
   \<and> watchers (unwatch 7 (unwatch 7 (client_watch 7 (client_watch 7 fresh_client)))) = []"
  by (simp add: unwatch_def client_watch_def fresh_client_def array_splice_def Let_def)

section \<open>Closing the client\<close>

lemma find_append_None: "find P xs = None \<Longrightarrow> find P (xs @ ys) = find P ys"
  by (induction xs) (auto split: if_splits)

lemma getElementById_Some:
  "getElementById f doc = Some e \<Longrightarrow> f \<noteq> [] \<and> el_id e = f \<and> e \<in> set doc"
  by (auto simp: getElementById_def find_Some_iff split: if_splits)

lemma not_in_remove_element: "e \<notin> set (remove_element e doc)"
  by (simp add: remove_element_def)

lemma client_close_eq:
  "client_close c pg =
     (c\<lparr>closed := True, connected := False\<rparr>,
      pg\<lparr>document := (case getElementById (client_frameId c) (document pg) of
                         Some fr \<Rightarrow> remove_element fr (document pg)
                       | None \<Rightarrow> document pg),
         listening := False\<rparr>)"
  by (simp add: client_close_def Let_def split: option.splits)

lemma client_new_found:
  assumes "opt_frameId opts = Some f" "getElementById f (document pgi) = Some e"
  shows "client_new uid origin url opts pgi =
     (\<lparr>client_id = uid, client_url = url, client_options = opts, client_origin = origin,
       connected = False, closed = False, count = 0, frame = Some (node e),
       requests = [], connects = [], watchers = []\<rparr>,
      pgi\<lparr>listening := True, intervals := intervals pgi @ [next_timer pgi],
          next_timer := next_timer pgi + 1\<rparr>)"
  using assms getElementById_Some [OF assms(2)]
  by (simp add: client_new_def Let_def client_poll_def setInterval_def)

lemma client_new_created:
  assumes "opt_frameId opts = None"
  shows "client_new uid origin url opts pgi =
     (\<lparr>client_id = uid, client_url = url, client_options = opts, client_origin = origin,
       connected = False, closed = False, count = 0, frame = Some (next_node pgi),
       requests = [], connects = [], watchers = []\<rparr>,
      pgi\<lparr>listening := True,
          document := document pgi @
            [\<lparr>node = next_node pgi, el_id = ''cross-storage-client-'' @ uid,
              contentWindow = Some (WindowOther (next_node pgi))\<rparr>],
          next_node := next_node pgi + 1\<rparr>)"
  using assms
  by (simp add: client_new_def Let_def client_createFrame_def client_frameId_def)

lemma client_new_created_under:
  assumes i: "i = (case opt_frameId opts of Some f \<Rightarrow> f | None \<Rightarrow> ''cross-storage-client-'' @ uid)"
    and none: "opt_frameId opts = None \<or> getElementById i (document pgi) = None"
  shows "client_new uid origin url opts pgi =
     (\<lparr>client_id = uid, client_url = url, client_options = opts, client_origin = origin,
       connected = False, closed = False, count = 0, frame = Some (next_node pgi),
       requests = [], connects = [], watchers = []\<rparr>,
      pgi\<lparr>listening := True,
          document := document pgi @
            [\<lparr>node = next_node pgi, el_id = i,
              contentWindow = Some (WindowOther (next_node pgi))\<rparr>],
          next_node := next_node pgi + 1\<rparr>)"
proof (cases "opt_frameId opts")
  case None
  then show ?thesis
    using i by (simp add: client_new_def Let_def client_createFrame_def client_frameId_def)
next
  case (Some f)
  with i none have "i = f" "getElementById f (document pgi) = None" by simp_all
  with Some show ?thesis
    by (simp add: client_new_def Let_def client_createFrame_def client_frameId_def)
qed

lemma close_after_creation:
  assumes i: "i = (case opt_frameId opts of Some f \<Rightarrow> f | None \<Rightarrow> ''cross-storage-client-'' @ uid)"
    and ine: "i \<noteq> []"
    and none: "getElementById i (document pgi) = None"
    and fresh: "\<forall>x\<in>set (document pgi). node x \<noteq> next_node pgi"
    and new: "client_new uid origin url opts pgi = (cn, pgn)"
  shows "frame cn = Some (next_node pgi)"
    and "document pgn = document pgi @
           [\<lparr>node = next_node pgi, el_id = i, contentWindow = Some (WindowOther (next_node pgi))\<rparr>]"
    and "document (snd (client_close cn pgn)) = document pgi"
proof -
  define fr where "fr = \<lparr>node = next_node pgi, el_id = i,
               contentWindow = Some (WindowOther (next_node pgi))\<rparr>"
  from new client_new_created_under [OF i, where pgi = pgi and origin = origin and url = url] none
  have cn: "cn = \<lparr>client_id = uid, client_url = url, client_options = opts, client_origin = origin,
       connected = False, closed = False, count = 0, frame = Some (next_node pgi),
       requests = [], connects = [], watchers = []\<rparr>"
    and pgn: "pgn = pgi\<lparr>listening := True, document := document pgi @ [fr],
          next_node := next_node pgi + 1\<rparr>"
    by (simp_all add: fr_def)
  show "frame cn = Some (next_node pgi)" by (simp add: cn)
  have d1: "document pgn = document pgi @ [fr]" by (simp add: pgn)
  then show "document pgn = document pgi @
           [\<lparr>node = next_node pgi, el_id = i, contentWindow = Some (WindowOther (next_node pgi))\<rparr>]"
    by (simp only: fr_def)
  have fid: "client_frameId cn = i"
    by (cases "opt_frameId opts") (simp_all add: cn client_frameId_def i)
  have fnone: "find (\<lambda>e. el_id e = i) (document pgi) = None"
    using none ine by (simp add: getElementById_def)
  have found: "getElementById i (document pgi @ [fr]) = Some fr"
    using ine by (simp add: getElementById_def find_append_None [OF fnone] fr_def)
  have keep: "filter (\<lambda>x. node x \<noteq> next_node pgi) (document pgi) = document pgi"
    using fresh by (simp add: filter_id_conv)
  have "document (snd (client_close cn pgn)) =
          (case getElementById (client_frameId cn) (document pgn) of
             Some e \<Rightarrow> remove_element e (document pgn)
           | None \<Rightarrow> document pgn)"
    by (simp add: client_close_eq)
  also have "\<dots> = remove_element fr (document pgi @ [fr])"
    by (simp only: fid d1 found option.case)
  also have "\<dots> = document pgi"
    by (simp add: remove_element_def keep fr_def)
  finally show "document (snd (client_close cn pgn)) = document pgi" .
qed

lemma close_after_taking:
  assumes f: "opt_frameId opts = Some f"
    and e: "getElementById f (document pgi) = Some e"
    and new: "client_new uid origin url opts pgi = (cn, pgn)"
  shows "frame cn = Some (node e)"
    and "document pgn = document pgi"
    and "document (snd (client_close cn pgn)) = remove_element e (document pgi)"
proof -
  from new client_new_found [OF f e, of uid origin url]
  have cn: "cn = \<lparr>client_id = uid, client_url = url, client_options = opts, client_origin = origin,
       connected = False, closed = False, count = 0, frame = Some (node e),
       requests = [], connects = [], watchers = []\<rparr>"
    and pgn: "pgn = pgi\<lparr>listening := True, intervals := intervals pgi @ [next_timer pgi],
          next_timer := next_timer pgi + 1\<rparr>"
    by simp_all
  show "frame cn = Some (node e)" by (simp add: cn)
  show d1: "document pgn = document pgi" by (simp add: pgn)
  have fid: "client_frameId cn = f" by (simp add: cn client_frameId_def f)
  show "document (snd (client_close cn pgn)) = remove_element e (document pgi)"
    by (simp add: client_close_eq fid d1 e)
qed

text \<open>
  C2, as the code has it. For every client and every page, \<^verbatim>\<open>close()\<close> marks the client
  closed and not connected, detaches the listener and removes from the document the
  element that \<^verbatim>\<open>getElementById(this.frameId)\<close> finds, if it finds one; which element the
  client holds in \<^verbatim>\<open>this.frame\<close>, and who created it, plays no part. So a frame supplied
  through \<^verbatim>\<open>options.frameId\<close>, which the constructor took and did not create, is removed
  by a \<^verbatim>\<open>close()\<close> that follows; and a frame the constructor created under a non-empty
  id that no element of the document carried (the generated id, or an
  \<^verbatim>\<open>options.frameId\<close> that named no element) is removed as well, the document being again
  what it was before the constructor.
\<close>

theorem close_removes_the_element_found_by_id:
  "client_close c pg =
     (c\<lparr>closed := True, connected := False\<rparr>,
      pg\<lparr>document := (case getElementById (client_frameId c) (document pg) of
                         Some fr \<Rightarrow> remove_element fr (document pg)
                       | None \<Rightarrow> document pg),
         listening := False\<rparr>)
   \<and> (getElementById (client_frameId c) (document pg) = Some e \<longrightarrow>
        e \<notin> set (document (snd (client_close c pg))))
   \<and> (opt_frameId opts = Some f \<and> getElementById f (document pgi) = Some e
        \<and> client_new uid origin url opts pgi = (cn, pgn) \<longrightarrow>
        frame cn = Some (node e) \<and> document pgn = document pgi
        \<and> document (snd (client_close cn pgn)) = remove_element e (document pgi)
        \<and> e \<notin> set (document (snd (client_close cn pgn))))
   \<and> (i = (case opt_frameId opts of Some f \<Rightarrow> f | None \<Rightarrow> ''cross-storage-client-'' @ uid)
        \<and> i \<noteq> [] \<and> getElementById i (document pgi) = None
        \<and> (\<forall>x\<in>set (document pgi). node x \<noteq> next_node pgi)
        \<and> client_new uid origin url opts pgi = (cn, pgn) \<longrightarrow>
        frame cn = Some (next_node pgi)
        \<and> document pgn = document pgi @
             [\<lparr>node = next_node pgi, el_id = i,
               contentWindow = Some (WindowOther (next_node pgi))\<rparr>]
        \<and> document (snd (client_close cn pgn)) = document pgi)"
proof (intro conjI)
  show "client_close c pg =
     (c\<lparr>closed := True, connected := False\<rparr>,
      pg\<lparr>document := (case getElementById (client_frameId c) (document pg) of
                         Some fr \<Rightarrow> remove_element fr (document pg)
                       | None \<Rightarrow> document pg),
         listening := False\<rparr>)"
    by (rule client_close_eq)
  show "getElementById (client_frameId c) (document pg) = Some e \<longrightarrow>
        e \<notin> set (document (snd (client_close c pg)))"
    by (simp add: client_close_eq not_in_remove_element)
  show "opt_frameId opts = Some f \<and> getElementById f (document pgi) = Some e
        \<and> client_new uid origin url opts pgi = (cn, pgn) \<longrightarrow>
        frame cn = Some (node e) \<and> document pgn = document pgi
        \<and> document (snd (client_close cn pgn)) = remove_element e (document pgi)
        \<and> e \<notin> set (document (snd (client_close cn pgn)))"
    using close_after_taking
            [where opts = opts and f = f and pgi = pgi and e = e and uid = uid
               and origin = origin and url = url and cn = cn and pgn = pgn]
    by (simp add: not_in_remove_element)
  show "i = (case opt_frameId opts of Some f \<Rightarrow> f | None \<Rightarrow> ''cross-storage-client-'' @ uid)
        \<and> i \<noteq> [] \<and> getElementById i (document pgi) = None
        \<and> (\<forall>x\<in>set (document pgi). node x \<noteq> next_node pgi)
        \<and> client_new uid origin url opts pgi = (cn, pgn) \<longrightarrow>
        frame cn = Some (next_node pgi)
        \<and> document pgn = document pgi @
             [\<lparr>node = next_node pgi, el_id = i,
               contentWindow = Some (WindowOther (next_node pgi))\<rparr>]
        \<and> document (snd (client_close cn pgn)) = document pgi"
    using close_after_creation
            [where i = i and opts = opts and uid = uid and pgi = pgi
               and origin = origin and url = url and cn = cn and pgn = pgn]
    by blast
qed

theorem close_removes_the_element_found_by_id_witness:
  "getElementById ''hub'' (document host_page) = Some hub_frame
   \<and> frame (fst external_new) = Some 0
   \<and> document (snd external_new) = [hub_frame]
   \<and> closed (fst external_closed) \<and> \<not> listening (snd external_closed)
   \<and> document (snd external_closed) = []
   \<and> hub_frame \<notin> set (document (snd external_closed))
   \<and> getElementById (client_frameId (fst own_new)) (document (snd own_new)) = Some own_frame
   \<and> own_frame \<notin> set (document (snd (client_close (fst own_new) (snd own_new))))
   \<and> getElementById ''cross-storage-client-u'' (document empty_page) = None
   \<and> document (snd own_new) = [own_frame]
   \<and> document (snd own_closed) = []"
proof -
  have e1: "client_new ''u'' hub_origin hub_url \<lparr>opt_frameId = Some ''hub'', opt_timeout = None\<rparr>
              host_page = (fst external_new, snd external_new)"
    by (simp add: external_new_def)
  have o1: "client_new ''u'' hub_origin hub_url \<lparr>opt_frameId = None, opt_timeout = None\<rparr>
              empty_page = (fst own_new, snd own_new)"
    by (simp add: own_new_def)
  have found: "getElementById ''hub'' (document host_page) = Some hub_frame"
    by (simp add: getElementById_def host_page_def empty_page_def hub_frame_def)
  have none: "getElementById ''cross-storage-client-u'' (document empty_page) = None"
    by (simp add: getElementById_def empty_page_def)
  have doc: "document host_page = [hub_frame]" "document empty_page = []"
    "next_node empty_page = 0" "node hub_frame = 0"
    by (simp_all add: host_page_def empty_page_def hub_frame_def)
  note T1 = close_removes_the_element_found_by_id
    [where c = "fst external_new" and pg = "snd external_new" and e = hub_frame
       and opts = "\<lparr>opt_frameId = Some ''hub'', opt_timeout = None\<rparr>" and f = "''hub''"
       and pgi = host_page and uid = "''u''" and origin = hub_origin and url = hub_url
       and cn = "fst external_new" and pgn = "snd external_new" and i = "''hub''"]
  note T2 = close_removes_the_element_found_by_id
    [where opts = "\<lparr>opt_frameId = None, opt_timeout = None\<rparr>" and i = "''cross-storage-client-u''"
       and pgi = empty_page and uid = "''u''" and origin = hub_origin and url = hub_url
       and cn = "fst own_new" and pgn = "snd own_new"
       and c = "fst own_new" and pg = "snd own_new" and e = own_frame and f = "''hub''"]
  have ext: "frame (fst external_new) = Some 0 \<and> document (snd external_new) = [hub_frame]
      \<and> document (snd external_closed) = []
      \<and> hub_frame \<notin> set (document (snd external_closed))"
    using T1 [THEN conjunct2, THEN conjunct2, THEN conjunct1] e1 found
    by (simp add: doc remove_element_def external_closed_def)
  have ec: "external_closed =
      (fst external_new\<lparr>closed := True, connected := False\<rparr>,
       snd external_new\<lparr>document :=
           (case getElementById (client_frameId (fst external_new)) (document (snd external_new)) of
              Some fr \<Rightarrow> remove_element fr (document (snd external_new))
            | None \<Rightarrow> document (snd external_new)),
         listening := False\<rparr>)"
    using T1 [THEN conjunct1] by (simp only: external_closed_def)
  have flags: "closed (fst external_closed) \<and> \<not> listening (snd external_closed)"
    by (subst (1 2) ec) simp
  have own: "document (snd own_new) = [own_frame] \<and> document (snd own_closed) = []"
    using T2 [THEN conjunct2, THEN conjunct2, THEN conjunct2] o1 none
    by (simp add: doc own_frame_def own_closed_def)
  have held: "getElementById (client_frameId (fst own_new)) (document (snd own_new)) = Some own_frame"
    by (simp add: own_new_def client_new_def client_createFrame_def client_frameId_def
          getElementById_def own_frame_def empty_page_def Let_def)
  have dropped: "own_frame \<notin> set (document (snd (client_close (fst own_new) (snd own_new))))"
    using T2 [THEN conjunct2, THEN conjunct1] held by simp
  show ?thesis using found none ext flags own held dropped by blast
qed

text \<open>
  C2 as stated fails: the client built with \<^verbatim>\<open>frameId: 'hub'\<close> on a page that holds a frame
  with that id takes it (the document is unchanged by the constructor), and \<^verbatim>\<open>close()\<close>
  removes it from the document.
\<close>

theorem close_removes_external_frame_counterexample:
  "frame (fst external_new) = Some (node hub_frame)
   \<and> document (snd external_new) = [hub_frame]
   \<and> document (snd external_closed) = []"
  by (simp add: external_closed_def external_new_def client_new_def client_close_def
        client_poll_def setInterval_def getElementById_def remove_element_def client_frameId_def
        host_page_def empty_page_def hub_frame_def Let_def)

text \<open>
  With \<^verbatim>\<open>frameId: ''\<close> the constructor takes the id for absent and creates a frame, whose id
  is the empty string; \<^verbatim>\<open>getElementById('')\<close> finds nothing, and \<^verbatim>\<open>close()\<close> leaves the
  document as the constructor made it.
\<close>

lemma close_after_creation_under_empty_id:
  assumes "opt_frameId opts = Some []"
    and "client_new uid origin url opts pgi = (cn, pgn)"
  shows "document pgn = document pgi @
           [\<lparr>node = next_node pgi, el_id = [], contentWindow = Some (WindowOther (next_node pgi))\<rparr>]
         \<and> document (snd (client_close cn pgn)) = document pgn"
proof -
  have none: "getElementById [] (document pgi) = None" by (simp add: getElementById_def)
  from assms client_new_created_under
             [where i = "[]" and opts = opts and uid = uid and pgi = pgi
                and origin = origin and url = url] none
  have cn: "client_frameId cn = []"
    and pgn: "document pgn = document pgi @
           [\<lparr>node = next_node pgi, el_id = [], contentWindow = Some (WindowOther (next_node pgi))\<rparr>]"
    by (auto simp: client_frameId_def)
  show ?thesis
    by (simp add: pgn client_close_eq cn getElementById_def)
qed

section \<open>Pending requests and pending connects\<close>

lemma map_of_update_same [simp]: "map_of (AList.update k v xs) k = Some v"
  by (simp add: AList.update_conv)

lemma map_of_delete_same [simp]: "map_of (AList.delete k xs) k = None"
  by (simp add: AList.delete_conv)

lemma timers_settle [simp]: "timers (settle p v pg) = timers pg"
  by (simp add: settle_def)

lemma timers_reject [simp]: "timers (reject p e pg) = timers pg"
  by (simp add: reject_def)

lemma promise_settle_pending:
  "map_of (promises pg) p = Some Pending \<Longrightarrow> map_of (promises (settle p v pg)) p = Some v"
  by (simp add: settle_def)

lemma promise_reject_pending:
  "map_of (promises pg) p = Some Pending \<Longrightarrow> map_of (promises (reject p e pg)) p = Some (Rejected e)"
  by (simp add: reject_def promise_settle_pending)

lemma startsWith_brace [simp]:
  "\<not> startsWith ''{'' ''cross-storage:''" "\<not> startsWith ''{'' (EVENT_CHANGE @ '':'')"
  by (simp_all add: startsWith_def EVENT_CHANGE_def)



lemma client_hub_simps [simp]:
  "client_hub (c\<lparr>count := n\<rparr>) pg = client_hub c pg"
  "client_hub c (pg\<lparr>promises := ps\<rparr>) = client_hub c pg"
  "client_hub c (pg\<lparr>next_promise := np\<rparr>) = client_hub c pg"
  "client_hub c (pg\<lparr>timers := ts\<rparr>) = client_hub c pg"
  "client_hub c (pg\<lparr>next_timer := nt\<rparr>) = client_hub c pg"
  by (simp_all add: client_hub_def split: option.splits)

lemma client_targetOrigin_simps [simp]:
  "client_targetOrigin (c\<lparr>count := n\<rparr>) = client_targetOrigin c"
  "client_targetOrigin (c\<lparr>requests := rs\<rparr>) = client_targetOrigin c"
  by (simp_all add: client_targetOrigin_def)


text \<open>
  What a request registers when the executor is left by an exception, and what is left
  of it when its timeout has fired: the promise is rejected at once, the entry and the
  timeout stay until the timeout fires.
\<close>

lemma client_request_throws:
  assumes "\<not> closed c" "connected c" "client_hub c pg = Some hubw"
    and "v = Unserializable \<or> client_targetOrigin c = ''null''"
  shows "client_request c m k v pg =
     (next_promise pg,
      c\<lparr>count := js_increment (count c),
        requests := AList.update (client_id c @ '':'' @ show_nat (js_increment (count c)))
          \<lparr>rc_timeout = next_timer pg,
           rc_id = client_id c @ '':'' @ show_nat (js_increment (count c)),
           rc_promise = next_promise pg\<rparr> (requests c)\<rparr>,
      reject (next_promise pg) (if v = Unserializable then TypeError else SyntaxError)
        (pg\<lparr>promises := AList.update (next_promise pg) Pending (promises pg),
            next_promise := next_promise pg + 1,
            timers := AList.update (next_timer pg)
              \<lparr>timer_delay = client_timeout c,
               timer_action = RequestTimeout (client_id c @ '':'' @ show_nat (js_increment (count c)))
                                m (next_promise pg)\<rparr>
              (timers pg),
            next_timer := next_timer pg + 1\<rparr>))"
  using assms
  by (cases v)
     (auto simp: client_request_def Let_def new_promise_def setTimeout_def
        client_timeout_def post_to_hub_def JSON_stringify_def)

lemma request_that_throws_keeps_timer_and_entry:
  assumes "\<not> closed c" "connected c" "client_hub c pg = Some hubw"
    and "v = Unserializable \<or> client_targetOrigin c = ''null''"
    and "client_request c m k v pg = (p, cs, pgs)"
    and "rid = client_id c @ '':'' @ show_nat (js_increment (count c))"
  shows "map_of (promises pgs) p = Some (Rejected (if v = Unserializable then TypeError else SyntaxError))
         \<and> map_of (requests cs) rid = Some \<lparr>rc_timeout = next_timer pg, rc_id = rid, rc_promise = p\<rparr>
         \<and> map_of (timers pgs) (next_timer pg) =
             Some \<lparr>timer_delay = client_timeout c, timer_action = RequestTimeout rid m p\<rparr>
         \<and> map_of (requests (fst (fire_timer (next_timer pg) cs pgs))) rid = None
         \<and> map_of (timers (snd (fire_timer (next_timer pg) cs pgs))) (next_timer pg) = None"
  using assms(5,6) client_request_throws [OF assms(1-4), of m k]
  by (auto simp: promise_reject_pending fire_timer_def Let_def reject_def settle_def)







lemma requests_simps [simp]: "requests (c\<lparr>count := n\<rparr>) = requests c"
  by simp









lemma own_new_eq: "own_new = (fresh_client, client_page)"
  by (simp add: own_new_def client_new_def client_createFrame_def client_frameId_def
        fresh_client_def client_page_def own_frame_def empty_page_def Let_def)

lemma ready_connects:
  "client_onListener fresh_client
     \<lparr>msg_origin = hub_origin, msg_data = Text EVENT_READY, msg_source = WindowOther 0\<rparr>
     client_page = (connected_client, client_page)"
  by (simp add: client_onListener_def connected_client_def fresh_client_def hub_origin_def
        EVENT_READY_def EVENT_UNAVAILABLE_def EVENT_CHANGE_def startsWith_def Let_def)






end
